theory Spec2Isabelle
  imports Main
begin

section \<open>The tldr client (tldr.c) as a shallow embedding\<close>

text \<open>
  The program is sequential C over stdio, libarchive, libcurl and ftw. The embedding keeps
  one HOL function per C function of \<^verbatim>\<open>tldr.c\<close>, with the same names. C strings are
  \<open>string\<close> values without the terminating NUL. The file system, the environment, both
  output streams and the answers of the external libraries live in one record, the
  \<open>world\<close>, which every function takes and returns. A function of return type \<open>T\<close>
  becomes \<open>world \<Rightarrow> (fault + T) \<times> world\<close>: \<open>Inl\<close> is a run that does not come back to its
  caller (\<^verbatim>\<open>exit\<close>, or a dereference the C code does not guard).

  What the model takes for granted:
  \<^item> the strings of \<^verbatim>\<open>argv\<close>, of the environment and of \<^verbatim>\<open>config.h\<close> hold no NUL byte (they are
    C strings); file contents may hold any byte;
  \<^item> output reaches its stream or file when it is written (no buffering is modelled), and
    closing a stream has no further effect;
  \<^item> \<^verbatim>\<open>archive_read_new\<close> and the libcurl set-up calls succeed;
  \<^item> the libraries are parameters: what the download yields, how a file reads as a zip
    archive, whether an entry can be extracted, and which objects \<^verbatim>\<open>ftw\<close> reports;
  \<^item> libarchive's reader, once it has answered \<^verbatim>\<open>ARCHIVE_EOF\<close>, answers \<^verbatim>\<open>ARCHIVE_FATAL\<close> to
    a further \<^verbatim>\<open>archive_read_next_header\<close> and hands back an entry without a path name.
\<close>

subsection \<open>Constants\<close>

definition BUF_SIZE :: nat where
  "BUF_SIZE = 1024"

abbreviation newline :: char where
  "newline \<equiv> CHR 0x0A"

abbreviation NUL :: char where
  "NUL \<equiv> CHR 0x00"

abbreviation slash :: char where
  "slash \<equiv> CHR ''/''"

definition RESET_STYLING :: string where
  "RESET_STYLING = [CHR 0x1B] @ ''[0m''"

text \<open>
  \<^verbatim>\<open>config.h\<close> is not among the sources; its constants are the fields of a record that
  every function takes as a parameter.
\<close>

record config =
  PAGES_URL :: string
  PAGES_TMP :: string
  PAGES_PATH :: string
  PAGES_LANG :: string
  HEADING_STYLE :: string
  SUBHEADING_STYLE :: string
  COMMAND_DESC_STYLE :: string
  COMMAND_STYLE :: string

subsection \<open>Faults\<close>

text \<open>
  \<open>Exit n\<close> is \<^verbatim>\<open>exit(n)\<close> (and, for \<open>main\<close>, \<^verbatim>\<open>return n\<close>). \<open>NullDeref\<close> is the use of
  a null pointer (or of \<^verbatim>\<open>NULL + 1\<close>) as a string or stream; \<open>OutOfBounds\<close> is a write past
  the end of a \<^verbatim>\<open>char[BUF_SIZE]\<close> buffer or a read past a string's terminator. The last
  two are undefined behaviour in C; the model stops there.
\<close>

datatype fault = Exit nat | NullDeref | OutOfBounds

subsection \<open>C string functions\<close>

text \<open>\<^verbatim>\<open>strchr(s, c)\<close> for \<open>c \<noteq> NUL\<close>: the suffix starting at the first \<open>c\<close>, or NULL.\<close>

fun strchr :: "string \<Rightarrow> char \<Rightarrow> string option" where
  "strchr [] c = None"
| "strchr (x # xs) c = (if x = c then Some (x # xs) else strchr xs c)"

text \<open>\<^verbatim>\<open>strstr(haystack, needle)\<close>: the suffix starting at the first occurrence, or NULL.\<close>

fun is_prefix :: "string \<Rightarrow> string \<Rightarrow> bool" where
  "is_prefix [] ys = True"
| "is_prefix (x # xs) [] = False"
| "is_prefix (x # xs) (y # ys) = (x = y \<and> is_prefix xs ys)"

fun strstr :: "string \<Rightarrow> string \<Rightarrow> string option" where
  "strstr [] needle = (if needle = [] then Some [] else None)"
| "strstr (x # xs) needle =
     (if is_prefix needle (x # xs) then Some (x # xs) else strstr xs needle)"

text \<open>\<^verbatim>\<open>p + 1\<close> on a pointer into a string; \<^verbatim>\<open>NULL + 1\<close> is not a string.\<close>

definition ptr_inc :: "string option \<Rightarrow> string option" where
  "ptr_inc p = (case p of None \<Rightarrow> None | Some [] \<Rightarrow> None | Some (x # xs) \<Rightarrow> Some xs)"

text \<open>\<^verbatim>\<open>strncmp(a, b, n) == 0\<close>.\<close>

definition strncmp_eq :: "string \<Rightarrow> string \<Rightarrow> nat \<Rightarrow> bool" where
  "strncmp_eq a b n = (take n a = take n b)"

text \<open>What the string functions see of a buffer that \<^verbatim>\<open>fgets\<close> filled: the bytes before
  the first NUL.\<close>

definition c_str :: "string \<Rightarrow> string" where
  "c_str bytes = takeWhile (\<lambda>c. c \<noteq> NUL) bytes"

text \<open>
  \<^verbatim>\<open>strcpy(buf, getenv("HOME")); strcat(buf, p1); ...\<close> into a \<^verbatim>\<open>char buf[BUF_SIZE]\<close>:
  the concatenation, when \<^verbatim>\<open>HOME\<close> is set and the result with its terminator fits.
\<close>

definition home_path :: "string option \<Rightarrow> string list \<Rightarrow> fault + string" where
  "home_path h parts =
     (case h of
        None \<Rightarrow> Inl NullDeref
      | Some dir \<Rightarrow>
          (if length (dir @ concat parts) < BUF_SIZE then Inr (dir @ concat parts)
           else Inl OutOfBounds))"

subsection \<open>The world: files, environment, output, external libraries\<close>

datatype node = Dir | File string

datatype typeflag = FTW_F | FTW_D | FTW_DNR | FTW_NS

record entry =
  pathname :: string
  body :: node

text \<open>
  \<open>fs\<close> maps a path to what is there. \<open>writable p\<close> says whether \<open>p\<close> can be created or
  truncated. \<open>fopens\<close> logs every call of \<^verbatim>\<open>fopen\<close> (path and mode) in order. The last four
  fields are what the libraries answer in this run: the outcome of the download (an error
  text or the bytes), libarchive's reading of a file as a zip archive (an error text or its
  entries in archive order), the error text of \<^verbatim>\<open>archive_read_extract\<close> for a destination
  (\<open>None\<close>: \<^verbatim>\<open>ARCHIVE_OK\<close>), and the calls \<^verbatim>\<open>ftw\<close> makes for a root directory.
\<close>

record world =
  home :: "string option"
  fs :: "string \<Rightarrow> node option"
  writable :: "string \<Rightarrow> bool"
  stdout :: string
  stderr :: string
  fopens :: "(string \<times> string) list"
  curl_perform :: "string + string"
  read_zip :: "string \<Rightarrow> string + entry list"
  extract_error :: "string \<Rightarrow> string option"
  ftw_walk :: "string \<Rightarrow> (string \<times> typeflag) list"

definition printf :: "string \<Rightarrow> world \<Rightarrow> world" where
  "printf s w = w\<lparr>stdout := stdout w @ s\<rparr>"

definition puts :: "string \<Rightarrow> world \<Rightarrow> world" where
  "puts s w = printf (s @ [newline]) w"

subsection \<open>Streams\<close>

text \<open>A \<^verbatim>\<open>FILE *\<close>: the path, the mode, and for a stream opened for reading the bytes not
  read yet.\<close>

datatype FILE = Stream (s_path: string) (s_mode: string) (s_unread: string)

text \<open>
  \<^verbatim>\<open>fopen(path, mode)\<close> for the two modes the program uses. \<^verbatim>\<open>"r"\<close> fails when nothing is
  at the path; a directory opens and then yields no data. \<^verbatim>\<open>"w"\<close> creates or truncates the
  file, and fails on a directory or where the path is not writable.
\<close>

definition fopen :: "string \<Rightarrow> string \<Rightarrow> world \<Rightarrow> FILE option \<times> world" where
  "fopen path mode w =
     (let w1 = w\<lparr>fopens := fopens w @ [(path, mode)]\<rparr> in
      if mode = ''r'' then
        (case fs w path of
           None \<Rightarrow> (None, w1)
         | Some Dir \<Rightarrow> (Some (Stream path mode []), w1)
         | Some (File bytes) \<Rightarrow> (Some (Stream path mode bytes), w1))
      else if mode = ''w'' then
        (if writable w path \<and> fs w path \<noteq> Some Dir
         then (Some (Stream path mode []), w1\<lparr>fs := (fs w)(path \<mapsto> File [])\<rparr>)
         else (None, w1))
      else (None, w1))"

text \<open>
  \<^verbatim>\<open>fgets(buf, n, fp)\<close> on the unread bytes: at most \<open>n - 1\<close> bytes, stopping after a
  newline; NULL at end of file. The result is the buffer as a C string and the bytes left.
\<close>

fun fgets_bytes :: "nat \<Rightarrow> string \<Rightarrow> string \<times> string" where
  "fgets_bytes n [] = ([], [])"
| "fgets_bytes n (c # s) =
     (if n = 0 then ([], c # s)
      else if c = newline then ([c], s)
      else (case fgets_bytes (n - 1) s of (l, r) \<Rightarrow> (c # l, r)))"

definition fgets :: "nat \<Rightarrow> string \<Rightarrow> (string \<times> string) option" where
  "fgets n s =
     (if s = [] then None
      else (case fgets_bytes (n - 1) s of (l, r) \<Rightarrow> Some (c_str l, r)))"

lemma fgets_bytes_length: "length (snd (fgets_bytes n s)) \<le> length s"
proof (induction s arbitrary: n)
  case Nil
  show ?case by simp
next
  case (Cons c s)
  have "length (snd (fgets_bytes (n - 1) s)) \<le> length s"
    by (rule Cons.IH)
  then show ?case
    by (cases "fgets_bytes (n - 1) s") auto
qed

lemma fgets_bytes_shorter:
  "0 < n \<Longrightarrow> s \<noteq> [] \<Longrightarrow> length (snd (fgets_bytes n s)) < length s"
proof (cases s)
  case Nil
  assume "s \<noteq> []"
  with Nil show ?thesis by simp
next
  case (Cons c t)
  assume "0 < n"
  have "length (snd (fgets_bytes (n - 1) t)) \<le> length t"
    by (rule fgets_bytes_length)
  with Cons \<open>0 < n\<close> show ?thesis
    by (cases "fgets_bytes (n - 1) t") auto
qed

lemma fgets_shorter: "fgets BUF_SIZE s = Some (buf, rest) \<Longrightarrow> length rest < length s"
proof -
  assume a: "fgets BUF_SIZE s = Some (buf, rest)"
  then have ne: "s \<noteq> []"
    by (auto simp: fgets_def split: if_splits)
  from a ne have "rest = snd (fgets_bytes (BUF_SIZE - 1) s)"
    by (auto simp: fgets_def split: prod.splits)
  moreover have "0 < BUF_SIZE - 1"
    by (simp add: BUF_SIZE_def)
  ultimately show ?thesis
    using fgets_bytes_shorter [OF _ ne] by simp
qed

text \<open>
  The successive contents of \<open>buf\<close> in \<^verbatim>\<open>while (fgets(buf, BUF_SIZE, fp)) ...\<close>, from the
  unread bytes of the stream to end of file. Reading has no other effect, so each loop of
  the program is a recursion over this list.
\<close>

function fgets_all :: "string \<Rightarrow> string list" where
  "fgets_all s =
     (case fgets BUF_SIZE s of
        None \<Rightarrow> []
      | Some (buf, rest) \<Rightarrow> buf # fgets_all rest)"
  by pat_completeness auto
termination
  by (relation "measure length") (auto dest: fgets_shorter)

declare fgets_all.simps [simp del]

text \<open>A stream that was opened with \<^verbatim>\<open>"w"\<close> cannot be read: \<^verbatim>\<open>fgets\<close> returns NULL at
  once.\<close>

definition read_lines :: "FILE \<Rightarrow> string list" where
  "read_lines fp = (if s_mode fp = ''r'' then fgets_all (s_unread fp) else [])"

text \<open>\<^verbatim>\<open>fprintf(fp, "%s\n", s)\<close>: appended to the file when the stream was opened for
  writing.\<close>

definition fprintf_line :: "FILE \<Rightarrow> string \<Rightarrow> world \<Rightarrow> world" where
  "fprintf_line fp s w =
     (if s_mode fp = ''w'' then
        (case fs w (s_path fp) of
           Some (File bytes) \<Rightarrow> w\<lparr>fs := (fs w)(s_path fp \<mapsto> File (bytes @ s @ [newline]))\<rparr>
         | _ \<Rightarrow> w)
      else w)"

subsection \<open>error_terminate, tldr_usage\<close>

definition error_terminate :: "string \<Rightarrow> string option \<Rightarrow> world \<Rightarrow> (fault + 'a) \<times> world" where
  "error_terminate msg details w =
     (Inl (Exit 1),
      w\<lparr>stderr := stderr w @ msg @ ''; details: ''
           @ (case details of None \<Rightarrow> ''none'' | Some d \<Rightarrow> d) @ ''.'' @ [newline]\<rparr>)"

definition usage_text :: string where
  "usage_text =
     ''USAGE: tldr [options] <[platform/]command>'' @ [newline, newline]
     @ ''[options]'' @ [newline]
     @ [CHR 0x09] @ ''-h:'' @ [CHR 0x09] @ ''this help overview'' @ [newline]
     @ [CHR 0x09] @ ''-l:'' @ [CHR 0x09] @ ''show all available pages'' @ [newline]
     @ [CHR 0x09] @ ''-u:'' @ [CHR 0x09] @ ''fetch lastest copies of cached pages''
     @ [newline, newline]
     @ ''[platform]'' @ [newline]
     @ [CHR 0x09] @ ''android'' @ [newline]
     @ [CHR 0x09] @ ''common'' @ [newline]
     @ [CHR 0x09] @ ''index'' @ [newline]
     @ [CHR 0x09] @ ''linux'' @ [newline]
     @ [CHR 0x09] @ ''osx'' @ [newline]
     @ [CHR 0x09] @ ''sunos'' @ [newline]
     @ [CHR 0x09] @ ''windows'' @ [newline, newline]
     @ ''<command>'' @ [newline]
     @ [CHR 0x09] @ ''Show examples for this command'' @ [newline]"

definition tldr_usage :: "world \<Rightarrow> world" where
  "tldr_usage w = printf usage_text w"

subsection \<open>open_index\<close>

definition open_index :: "config \<Rightarrow> string \<Rightarrow> world \<Rightarrow> (fault + FILE) \<times> world" where
  "open_index cfg mode w =
     (case home_path (home w) [PAGES_PATH cfg, ''/index''] of
        Inl f \<Rightarrow> (Inl f, w)
      | Inr buf \<Rightarrow>
          (case fopen buf mode w of
             (None, w1) \<Rightarrow>
               error_terminate
                 (''Failer to open index, probably you should run '' @ [CHR 0x27]
                    @ ''tldr -u'' @ [CHR 0x27])
                 (Some mode) w1
           | (Some fp, w1) \<Rightarrow> (Inr fp, w1)))"

subsection \<open>find_page\<close>

text \<open>\<^verbatim>\<open>*strchr(buf, '\n') = '\0'; return buf;\<close>\<close>

definition chop_newline :: "string \<Rightarrow> fault + string option" where
  "chop_newline buf =
     (case strchr buf newline of
        None \<Rightarrow> Inl NullDeref
      | Some p \<Rightarrow> Inr (Some (takeWhile (\<lambda>c. c \<noteq> newline) buf)))"

text \<open>The body of the \<^verbatim>\<open>while\<close> loop of \<open>find_page\<close>; \<open>Inr None\<close> is the \<^verbatim>\<open>return NULL\<close>
  after the loop.\<close>

fun find_loop :: "string \<Rightarrow> string \<Rightarrow> string list \<Rightarrow> fault + string option" where
  "find_loop page_name page_filename [] = Inr None"
| "find_loop page_name page_filename (buf # rest) =
     (if strchr page_name slash \<noteq> None then
        (if page_filename = buf then chop_newline buf
         else find_loop page_name page_filename rest)
      else
        (case ptr_inc (strchr buf slash) of
           None \<Rightarrow> Inl NullDeref
         | Some p \<Rightarrow>
             (if page_filename = p then chop_newline buf
              else find_loop page_name page_filename rest)))"

definition find_page :: "config \<Rightarrow> string \<Rightarrow> world \<Rightarrow> (fault + string option) \<times> world" where
  "find_page cfg page_name w =
     (case open_index cfg ''r'' w of
        (Inl f, w1) \<Rightarrow> (Inl f, w1)
      | (Inr tldr_index, w1) \<Rightarrow>
          (find_loop page_name (page_name @ ''.md'' @ [newline]) (read_lines tldr_index), w1))"

subsection \<open>display_page\<close>

text \<open>\<^verbatim>\<open>buf[0]\<close> of a C string: the terminator when the string is empty.\<close>

definition first_char :: "string \<Rightarrow> char" where
  "first_char buf = (case buf of [] \<Rightarrow> NUL | c # cs \<Rightarrow> c)"

text \<open>What one pass through the body of the rendering loop prints for the buffer.\<close>

definition display_line :: "config \<Rightarrow> string \<Rightarrow> string" where
  "display_line cfg buf =
     (if buf = [newline] then []
      else
        (if first_char buf = CHR ''#'' then HEADING_STYLE cfg @ buf @ RESET_STYLING else [])
        @ (if first_char buf = CHR ''>'' then SUBHEADING_STYLE cfg @ buf @ RESET_STYLING else [])
        @ (if first_char buf = CHR ''-'' then COMMAND_DESC_STYLE cfg @ buf @ RESET_STYLING else [])
        @ (if first_char buf = CHR 0x60 then COMMAND_STYLE cfg @ buf @ RESET_STYLING else []))"

fun display_loop :: "config \<Rightarrow> string list \<Rightarrow> world \<Rightarrow> world" where
  "display_loop cfg [] w = w"
| "display_loop cfg (buf # rest) w = display_loop cfg rest (printf (display_line cfg buf) w)"

text \<open>The result of \<^verbatim>\<open>fopen\<close> goes to \<^verbatim>\<open>fgets\<close> unchecked: a page that cannot be opened is
  a null stream in the first \<^verbatim>\<open>fgets\<close>.\<close>

definition display_page :: "config \<Rightarrow> string \<Rightarrow> world \<Rightarrow> (fault + unit) \<times> world" where
  "display_page cfg page_name w =
     (case find_page cfg page_name w of
        (Inl f, w1) \<Rightarrow> (Inl f, w1)
      | (Inr None, w1) \<Rightarrow> (Inl (Exit 1), puts ''The page has not been found.'' w1)
      | (Inr (Some page_path), w1) \<Rightarrow>
          (case home_path (home w1) [PAGES_PATH cfg, PAGES_LANG cfg, ''/'', page_path] of
             Inl f \<Rightarrow> (Inl f, w1)
           | Inr buf \<Rightarrow>
               (case fopen buf ''r'' w1 of
                  (None, w2) \<Rightarrow> (Inl NullDeref, w2)
                | (Some page, w2) \<Rightarrow> (Inr (), display_loop cfg (read_lines page) w2))))"

subsection \<open>list_pages\<close>

text \<open>\<^verbatim>\<open>printf("%s", strchr(buf+1, '/')+1)\<close> for each buffer read.\<close>

fun list_loop :: "string list \<Rightarrow> world \<Rightarrow> (fault + unit) \<times> world" where
  "list_loop [] w = (Inr (), w)"
| "list_loop (buf # rest) w =
     (case buf of
        [] \<Rightarrow> (Inl OutOfBounds, w)
      | c # buf1 \<Rightarrow>
          (case ptr_inc (strchr buf1 slash) of
             None \<Rightarrow> (Inl NullDeref, w)
           | Some p \<Rightarrow> list_loop rest (printf p w)))"

definition list_pages :: "config \<Rightarrow> world \<Rightarrow> (fault + unit) \<times> world" where
  "list_pages cfg w =
     (case open_index cfg ''w'' w of
        (Inl f, w1) \<Rightarrow> (Inl f, w1)
      | (Inr tldr_index, w1) \<Rightarrow> list_loop (read_lines tldr_index) w1)"

subsection \<open>index_pages, ftw_callback\<close>

definition ftw_callback ::
  "config \<Rightarrow> FILE \<Rightarrow> string \<Rightarrow> typeflag \<Rightarrow> world \<Rightarrow> (fault + int) \<times> world" where
  "ftw_callback cfg tldr_index path flag w =
     (if flag = FTW_F then
        (case strstr path (PAGES_LANG cfg) of
           None \<Rightarrow> (Inl NullDeref, w)
         | Some [] \<Rightarrow> (Inl OutOfBounds, w)
         | Some (c # p) \<Rightarrow>
             (case ptr_inc (strchr p slash) of
                None \<Rightarrow> (Inl NullDeref, w)
              | Some q \<Rightarrow> (Inr 0, fprintf_line tldr_index q w)))
      else (Inr 0, w))"

text \<open>\<^verbatim>\<open>ftw\<close> calls the callback for each object of the walk and stops at the first
  non-zero return.\<close>

fun ftw ::
  "(string \<times> typeflag) list \<Rightarrow> (string \<Rightarrow> typeflag \<Rightarrow> world \<Rightarrow> (fault + int) \<times> world)
     \<Rightarrow> world \<Rightarrow> (fault + int) \<times> world" where
  "ftw [] fn w = (Inr 0, w)"
| "ftw ((path, flag) # rest) fn w =
     (case fn path flag w of
        (Inl f, w1) \<Rightarrow> (Inl f, w1)
      | (Inr r, w1) \<Rightarrow> (if r \<noteq> 0 then (Inr r, w1) else ftw rest fn w1))"

definition index_pages :: "config \<Rightarrow> world \<Rightarrow> (fault + unit) \<times> world" where
  "index_pages cfg w =
     (case home_path (home w) [PAGES_PATH cfg, PAGES_LANG cfg] of
        Inl f \<Rightarrow> (Inl f, w)
      | Inr buf \<Rightarrow>
          (case open_index cfg ''w'' w of
             (Inl f, w1) \<Rightarrow> (Inl f, w1)
           | (Inr tldr_index, w1) \<Rightarrow>
               (case ftw (ftw_walk w1 buf) (ftw_callback cfg tldr_index) w1 of
                  (Inl f, w2) \<Rightarrow> (Inl f, w2)
                | (Inr r, w2) \<Rightarrow> (Inr (), w2))))"

subsection \<open>extract_pages\<close>

text \<open>
  The archive is the list of its entries in archive order; \<^verbatim>\<open>archive_read_next_header\<close>
  takes the head, and answers \<^verbatim>\<open>ARCHIVE_EOF\<close> on the empty list. Once it has answered
  \<^verbatim>\<open>ARCHIVE_EOF\<close> the reader is at its end: a further call answers \<^verbatim>\<open>ARCHIVE_FATAL\<close> and
  hands back a cleared entry, whose path name is NULL.
  \<^verbatim>\<open>archive_read_extract\<close> puts the entry at its path name, or fails with an error text.
\<close>

definition archive_read_extract :: "entry \<Rightarrow> world \<Rightarrow> string option \<times> world" where
  "archive_read_extract e w =
     (case extract_error w (pathname e) of
        Some msg \<Rightarrow> (Some msg, w)
      | None \<Rightarrow> (None, w\<lparr>fs := (fs w)(pathname e \<mapsto> body e)\<rparr>))"

text \<open>The first \<^verbatim>\<open>while\<close>: read headers up to and including the one whose path is
  \<open>archive_path\<close>. \<open>Some es\<close> is the \<^verbatim>\<open>break\<close>, with the entries still to read; \<open>None\<close> is
  the loop ending because \<^verbatim>\<open>ARCHIVE_EOF\<close> was answered.\<close>

fun find_folder :: "string \<Rightarrow> entry list \<Rightarrow> entry list option" where
  "find_folder archive_path [] = None"
| "find_folder archive_path (e # es) =
     (if pathname e = archive_path then Some es else find_folder archive_path es)"

text \<open>The second \<^verbatim>\<open>while\<close>, entered with entries still to read or at the end of the
  archive for the first time.\<close>

fun extract_loop :: "config \<Rightarrow> string \<Rightarrow> entry list \<Rightarrow> world \<Rightarrow> (fault + unit) \<times> world" where
  "extract_loop cfg archive_path [] w = (Inr (), w)"
| "extract_loop cfg archive_path (e # es) w =
     (if \<not> strncmp_eq (pathname e) archive_path (length archive_path) then (Inr (), w)
      else
        (case strchr (pathname e) slash of
           None \<Rightarrow> (Inl NullDeref, w)
         | Some tail \<Rightarrow>
             (case home_path (home w) [PAGES_PATH cfg, tail] of
                Inl f \<Rightarrow> (Inl f, w)
              | Inr page_path \<Rightarrow>
                  (case archive_read_extract (e\<lparr>pathname := page_path\<rparr>) w of
                     (Some msg, w1) \<Rightarrow>
                       error_terminate ''Failed to archive_read_extract()'' (Some msg) w1
                   | (None, w1) \<Rightarrow> extract_loop cfg archive_path es w1))))"

text \<open>
  When the first loop ended on \<^verbatim>\<open>ARCHIVE_EOF\<close>, the second loop's first
  \<^verbatim>\<open>archive_read_next_header\<close> is a call after the end: its answer is not \<^verbatim>\<open>ARCHIVE_EOF\<close>, the
  body runs, and \<^verbatim>\<open>strncmp\<close> gets the NULL path name of the cleared entry.
\<close>

definition extract_pages :: "config \<Rightarrow> world \<Rightarrow> (fault + unit) \<times> world" where
  "extract_pages cfg w =
     (case fopen (PAGES_TMP cfg) ''r'' w of
        (None, w1) \<Rightarrow> error_terminate ''Failed to open the archive'' None w1
      | (Some tldr_archive, w1) \<Rightarrow>
          (case read_zip w1 (s_unread tldr_archive) of
             Inl msg \<Rightarrow> error_terminate ''Failed to archive_read_open_FILE()'' (Some msg) w1
           | Inr entries \<Rightarrow>
               (let archive_path = ''tldr-master'' @ PAGES_LANG cfg @ ''/'' in
                if length archive_path < BUF_SIZE
                then
                  (case find_folder archive_path entries of
                     None \<Rightarrow> (Inl NullDeref, w1)
                   | Some es \<Rightarrow> extract_loop cfg archive_path es w1)
                else (Inl OutOfBounds, w1))))"

subsection \<open>fetch_pages\<close>

text \<open>The transfer writes the bytes it receives to the temporary file; a failed transfer
  is modelled as leaving the truncated file.\<close>

definition fetch_pages :: "config \<Rightarrow> world \<Rightarrow> (fault + unit) \<times> world" where
  "fetch_pages cfg w =
     (case fopen (PAGES_TMP cfg) ''w'' w of
        (None, w1) \<Rightarrow> error_terminate ''Failed to create a temporary file'' None w1
      | (Some tldr_archive, w1) \<Rightarrow>
          (case curl_perform w1 of
             Inl err_curl \<Rightarrow> error_terminate ''Failed to fetch pages'' (Some err_curl) w1
           | Inr bytes \<Rightarrow> (Inr (), w1\<lparr>fs := (fs w1)(PAGES_TMP cfg \<mapsto> File bytes)\<rparr>)))"

subsection \<open>main\<close>

text \<open>\<open>argv\<close> includes the program name, so \<^verbatim>\<open>argc\<close> is its length. The result is the exit
  status, or the fault that ended the run.\<close>

text \<open>The \<^verbatim>\<open>return 0\<close> that ends \<open>main\<close> after a branch has come back, and the body of the
  \<^verbatim>\<open>-u\<close> branch.\<close>

definition finish :: "(fault + unit) \<times> world \<Rightarrow> fault \<times> world" where
  "finish r = (case r of (Inl f, w) \<Rightarrow> (f, w) | (Inr u, w) \<Rightarrow> (Exit 0, w))"

definition update_pages :: "config \<Rightarrow> world \<Rightarrow> (fault + unit) \<times> world" where
  "update_pages cfg w =
     (case fetch_pages cfg (puts ''Fetching pages...'' w) of
        (Inl f, w1) \<Rightarrow> (Inl f, w1)
      | (Inr u, w1) \<Rightarrow>
          (case extract_pages cfg (puts ''Extracting pages...'' w1) of
             (Inl f, w2) \<Rightarrow> (Inl f, w2)
           | (Inr u, w2) \<Rightarrow> index_pages cfg (puts ''Indexing pages...'' w2)))"

definition main :: "config \<Rightarrow> string list \<Rightarrow> world \<Rightarrow> fault \<times> world" where
  "main cfg argv w =
     (if length argv \<noteq> 2 then (Exit 1, tldr_usage w)
      else if argv ! 1 = ''-h'' then (Exit 0, tldr_usage w)
      else if argv ! 1 = ''-u'' then finish (update_pages cfg w)
      else if argv ! 1 = ''-l'' then finish (list_pages cfg w)
      else finish (display_page cfg (argv ! 1) w))"

section \<open>Notions of the specification\<close>

text \<open>A text file given by its lines, each ended by a newline.\<close>

definition text_of :: "string list \<Rightarrow> string" where
  "text_of ls = concat (map (\<lambda>l. l @ [newline]) ls)"

text \<open>A line that one \<^verbatim>\<open>fgets\<close> into a \<^verbatim>\<open>char[BUF_SIZE]\<close> buffer reads whole and unchanged: no
  newline and no NUL inside, and with its newline at most \<open>BUF_SIZE - 1\<close> bytes.\<close>

definition line_ok :: "string \<Rightarrow> bool" where
  "line_ok l = (newline \<notin> set l \<and> NUL \<notin> set l \<and> length l + 1 < BUF_SIZE)"

text \<open>The portion of an index line after its first \<open>/\<close>.\<close>

definition after_slash :: "string \<Rightarrow> string" where
  "after_slash l = tl (dropWhile (\<lambda>c. c \<noteq> slash) l)"

text \<open>The matching rule of the Page Locator: a query with \<open>/\<close> names the whole line, a query
  without names the portion after the first \<open>/\<close>; both with \<^verbatim>\<open>.md\<close> appended.\<close>

definition matches :: "string \<Rightarrow> string \<Rightarrow> bool" where
  "matches query l =
     (if slash \<in> set query then l = query @ ''.md'' else after_slash l = query @ ''.md'')"

text \<open>The paths the program builds from \<^verbatim>\<open>$HOME\<close>: the index file, the language root that
  is walked and rendered from, and a page below it.\<close>

definition index_file :: "config \<Rightarrow> string \<Rightarrow> string" where
  "index_file cfg h = h @ PAGES_PATH cfg @ ''/index''"


definition page_file :: "config \<Rightarrow> string \<Rightarrow> string \<Rightarrow> string" where
  "page_file cfg h rel = h @ PAGES_PATH cfg @ PAGES_LANG cfg @ ''/'' @ rel"


text \<open>How the Page Renderer is specified to print one line of a page (given without its
  newline): nothing for an empty line, the line between its style and the reset for the four
  prefixes, nothing otherwise.\<close>

definition style_of :: "config \<Rightarrow> char \<Rightarrow> string option" where
  "style_of cfg c =
     (if c = CHR ''#'' then Some (HEADING_STYLE cfg)
      else if c = CHR ''>'' then Some (SUBHEADING_STYLE cfg)
      else if c = CHR ''-'' then Some (COMMAND_DESC_STYLE cfg)
      else if c = CHR 0x60 then Some (COMMAND_STYLE cfg)
      else None)"

definition render_line :: "config \<Rightarrow> string \<Rightarrow> string" where
  "render_line cfg l =
     (case l of
        [] \<Rightarrow> []
      | c # cs \<Rightarrow>
          (case style_of cfg c of
             None \<Rightarrow> []
           | Some style \<Rightarrow> style @ l @ [newline] @ RESET_STYLING))"

text \<open>What the Archive Extractor is specified to do with an entry it extracts: the
  destination is the destination root followed by the entry's path from its first \<open>/\<close> on.\<close>

definition destination :: "config \<Rightarrow> string \<Rightarrow> entry \<Rightarrow> string" where
  "destination cfg h e = h @ PAGES_PATH cfg @ dropWhile (\<lambda>c. c \<noteq> slash) (pathname e)"

definition archive_root :: "config \<Rightarrow> string" where
  "archive_root cfg = ''tldr-master'' @ PAGES_LANG cfg @ ''/''"

definition under_root :: "config \<Rightarrow> entry \<Rightarrow> bool" where
  "under_root cfg e = (take (length (archive_root cfg)) (pathname e) = archive_root cfg)"

text \<open>The entries that follow the first entry whose path is the root, up to the first one
  that does not have the root as a prefix.\<close>

definition extracted_run :: "config \<Rightarrow> entry list \<Rightarrow> entry list" where
  "extracted_run cfg entries =
     takeWhile (under_root cfg)
       (drop 1 (dropWhile (\<lambda>e. pathname e \<noteq> archive_root cfg) entries))"

definition put_entry :: "config \<Rightarrow> string \<Rightarrow> entry \<Rightarrow> (string \<Rightarrow> node option) \<Rightarrow> (string \<Rightarrow> node option)" where
  "put_entry cfg h e files = files(destination cfg h e \<mapsto> body e)"

section \<open>A configuration and worlds for concrete runs\<close>

definition example_config :: config where
  "example_config =
     \<lparr>PAGES_URL = ''https://example.org/tldr.zip'',
      PAGES_TMP = ''/tmp/tldr_pages.zip'',
      PAGES_PATH = ''/.tldr'',
      PAGES_LANG = ''/pages'',
      HEADING_STYLE = [CHR 0x1B] @ ''[1m'',
      SUBHEADING_STYLE = [CHR 0x1B] @ ''[4m'',
      COMMAND_DESC_STYLE = [CHR 0x1B] @ ''[32m'',
      COMMAND_STYLE = [CHR 0x1B] @ ''[33m''\<rparr>"

text \<open>A user with home \<^verbatim>\<open>/home/u\<close>, an empty file system where everything can be written,
  nothing printed yet; no download, no archive, an empty walk.\<close>

definition example_world :: world where
  "example_world =
     \<lparr>home = Some ''/home/u'',
      fs = Map.empty,
      writable = (\<lambda>p. True),
      stdout = [],
      stderr = [],
      fopens = [],
      curl_perform = Inl ''offline'',
      read_zip = (\<lambda>bytes. Inl ''not a zip file''),
      extract_error = (\<lambda>p. None),
      ftw_walk = (\<lambda>dir. [])\<rparr>"

text \<open>The same with an index file of the given bytes.\<close>

definition index_world :: "string \<Rightarrow> world" where
  "index_world bytes = example_world\<lparr>fs := [''/home/u/.tldr/index'' \<mapsto> File bytes]\<rparr>"

definition example_page :: "string list" where
  "example_page = [''# Title'', [], ''> desc'', ''plain text'', [CHR 0x60] @ ''cmd'' @ [CHR 0x60]]"

definition page_world :: world where
  "page_world =
     example_world\<lparr>fs := [''/home/u/.tldr/index'' \<mapsto> File (text_of [''common/tar.md'']),
                          ''/home/u/.tldr/pages/common/tar.md'' \<mapsto> File (text_of example_page)]\<rparr>"



text \<open>The same program run by a user whose home directory is \<^verbatim>\<open>/home/pages\<close>: a cache with
  one page and a stale index.\<close>

definition pages_home_world :: world where
  "pages_home_world =
     example_world
       \<lparr>home := Some ''/home/pages'',
        fs := [''/home/pages/.tldr/index'' \<mapsto> File (text_of [''osx/stale.md''])],
        ftw_walk := (\<lambda>dir. if dir = ''/home/pages/.tldr/pages''
                    then [(''/home/pages/.tldr/pages'', FTW_D),
                          (''/home/pages/.tldr/pages/common'', FTW_D),
                          (''/home/pages/.tldr/pages/common/tar.md'', FTW_F)]
                    else [])\<rparr>"

text \<open>An archive as GitHub packs the pages repository: the top-level directory, a file in
  it, the English pages, and the German pages after them.\<close>

definition example_archive :: "entry list" where
  "example_archive =
     [\<lparr>pathname = ''tldr-master/'', body = Dir\<rparr>,
      \<lparr>pathname = ''tldr-master/README.md'', body = File ''tldr''\<rparr>,
      \<lparr>pathname = ''tldr-master/pages/'', body = Dir\<rparr>,
      \<lparr>pathname = ''tldr-master/pages/common/'', body = Dir\<rparr>,
      \<lparr>pathname = ''tldr-master/pages/common/tar.md'', body = File ''# tar''\<rparr>,
      \<lparr>pathname = ''tldr-master/pages.de/'', body = Dir\<rparr>,
      \<lparr>pathname = ''tldr-master/pages.de/common/tar.md'', body = File ''# tar (de)''\<rparr>]"

definition archive_world :: "entry list \<Rightarrow> world" where
  "archive_world entries =
     example_world\<lparr>fs := [''/tmp/tldr_pages.zip'' \<mapsto> File ''PK''],
                    read_zip := (\<lambda>bytes. if bytes = ''PK'' then Inr entries else Inl ''not a zip file'')\<rparr>"

text \<open>An archive without the English pages: no entry has the path tldr-master/pages/.\<close>

definition german_archive :: "entry list" where
  "german_archive =
     [\<lparr>pathname = ''tldr-master/'', body = Dir\<rparr>,
      \<lparr>pathname = ''tldr-master/pages.de/'', body = Dir\<rparr>,
      \<lparr>pathname = ''tldr-master/pages.de/common/tar.md'', body = File ''# tar (de)''\<rparr>]"

section \<open>Facts about the C string and stdio functions\<close>

lemma strchr_None_iff: "strchr s c = None \<longleftrightarrow> c \<notin> set s"
  by (induction s) auto

lemma strchr_Some: "c \<in> set s \<Longrightarrow> strchr s c = Some (dropWhile (\<lambda>x. x \<noteq> c) s)"
  by (induction s) auto

lemma ptr_inc_strchr:
  "ptr_inc (strchr s c) = (if c \<in> set s then Some (tl (dropWhile (\<lambda>x. x \<noteq> c) s)) else None)"
proof (cases "c \<in> set s")
  case True
  then have "dropWhile (\<lambda>x. x \<noteq> c) s \<noteq> []"
    by simp
  with True show ?thesis
    by (cases "dropWhile (\<lambda>x. x \<noteq> c) s") (simp_all add: strchr_Some ptr_inc_def)
next
  case False
  then show ?thesis
    by (simp add: ptr_inc_def iffD2 [OF strchr_None_iff])
qed

lemma fgets_bytes_line:
  "newline \<notin> set l \<Longrightarrow> length l < n \<Longrightarrow> fgets_bytes n (l @ newline # rest) = (l @ [newline], rest)"
  by (induction l arbitrary: n) auto

lemma fgets_line:
  assumes "line_ok l"
  shows "fgets BUF_SIZE (l @ newline # rest) = Some (l @ [newline], rest)"
proof -
  from assms have nl: "newline \<notin> set l" and nul: "NUL \<notin> set l" and len: "length l < BUF_SIZE - 1"
    by (auto simp: line_ok_def)
  have "c_str (l @ [newline]) = l @ [newline]"
    using nul by (auto simp: c_str_def)
  then show ?thesis
    using fgets_bytes_line [OF nl len] by (simp add: fgets_def)
qed

lemma fgets_all_line: "line_ok l \<Longrightarrow> fgets_all (l @ newline # rest) = (l @ [newline]) # fgets_all rest"
  by (subst fgets_all.simps) (simp add: fgets_line)

lemma fgets_all_Nil: "fgets_all [] = []"
  by (subst fgets_all.simps) (simp add: fgets_def)

lemma fgets_all_text: "list_all line_ok ls \<Longrightarrow> fgets_all (text_of ls) = map (\<lambda>l. l @ [newline]) ls"
  by (induction ls) (simp_all add: text_of_def fgets_all_Nil fgets_all_line)

lemma takeWhile_upto: "c \<notin> set l \<Longrightarrow> takeWhile (\<lambda>x. x \<noteq> c) (l @ c # r) = l"
  by (induction l) auto

lemma chop_newline_line: "newline \<notin> set l \<Longrightarrow> chop_newline (l @ [newline]) = Inr (Some l)"
  by (simp add: chop_newline_def strchr_Some takeWhile_upto)

lemma after_slash_line: "slash \<in> set l \<Longrightarrow> ptr_inc (strchr (l @ [newline]) slash) = Some (after_slash l @ [newline])"
  by (simp add: ptr_inc_strchr after_slash_def)

lemma find_loop_slash:
  assumes "slash \<in> set q" "list_all line_ok ls"
  shows "find_loop q (q @ ''.md'' @ [newline]) (map (\<lambda>l. l @ [newline]) ls) = Inr (List.find (matches q) ls)"
  using assms(2)
proof (induction ls)
  case Nil
  show ?case by simp
next
  case (Cons l ls)
  from Cons.prems have "line_ok l" and rest: "list_all line_ok ls"
    by simp_all
  then have nl: "newline \<notin> set l"
    by (simp add: line_ok_def)
  from assms(1) have q: "strchr q slash \<noteq> None"
    by (simp add: strchr_None_iff)
  show ?case
    using q nl Cons.IH [OF rest] assms(1)
    by (auto simp: matches_def chop_newline_line)
qed

lemma find_loop_name:
  assumes "slash \<notin> set q" "list_all line_ok ls" "list_all (\<lambda>l. slash \<in> set l) ls"
  shows "find_loop q (q @ ''.md'' @ [newline]) (map (\<lambda>l. l @ [newline]) ls) = Inr (List.find (matches q) ls)"
  using assms(2,3)
proof (induction ls)
  case Nil
  show ?case by simp
next
  case (Cons l ls)
  from Cons.prems have "line_ok l" and sl: "slash \<in> set l"
    and rest: "list_all line_ok ls" "list_all (\<lambda>l. slash \<in> set l) ls"
    by simp_all
  then have nl: "newline \<notin> set l"
    by (simp add: line_ok_def)
  from assms(1) have q: "strchr q slash = None"
    by (simp add: strchr_None_iff)
  show ?case
    using q nl Cons.IH [OF rest] assms(1)
    by (auto simp: matches_def chop_newline_line after_slash_line [OF sl])
qed

lemma open_index_read:
  assumes "home w = Some h" "length (index_file cfg h) < BUF_SIZE"
    "fs w (index_file cfg h) = Some (File bytes)"
  shows "open_index cfg ''r'' w =
    (Inr (Stream (index_file cfg h) ''r'' bytes), w\<lparr>fopens := fopens w @ [(index_file cfg h, ''r'')]\<rparr>)"
  using assms by (simp add: open_index_def home_path_def index_file_def fopen_def)

lemma find_page_lines:
  assumes "home w = Some h" "length (index_file cfg h) < BUF_SIZE"
    "fs w (index_file cfg h) = Some (File (text_of ls))" "list_all line_ok ls"
    "slash \<in> set q \<or> list_all (\<lambda>l. slash \<in> set l) ls"
  shows "find_page cfg q w =
    (Inr (List.find (matches q) ls), w\<lparr>fopens := fopens w @ [(index_file cfg h, ''r'')]\<rparr>)"
proof -
  have "find_loop q (q @ ''.md'' @ [newline]) (fgets_all (text_of ls)) = Inr (List.find (matches q) ls)"
    using assms(4,5) find_loop_slash find_loop_name by (auto simp: fgets_all_text)
  then show ?thesis
    by (simp add: find_page_def open_index_read [OF assms(1-3)] read_lines_def)
qed

section \<open>The Page Locator\<close>

lemma find_whole: "slash \<in> set q \<Longrightarrow> List.find (matches q) ls = List.find (\<lambda>l. l = q @ ''.md'') ls"
  by (induction ls) (simp_all add: matches_def)

lemma find_name: "slash \<notin> set q \<Longrightarrow> List.find (matches q) ls = List.find (\<lambda>l. after_slash l = q @ ''.md'') ls"
  by (induction ls) (simp_all add: matches_def)

text \<open>
  C1. For an index whose lines are each newline-terminated and fit the line buffer:
  a query with a slash makes find_page return the first line equal to the query with .md
  appended; a query without a slash returns the first line whose portion after the first
  slash equals it, when every line has a slash.
\<close>

theorem find_page_matching_rule:
  assumes "home w = Some h"
    and "length (index_file cfg h) < BUF_SIZE"
    and "fs w (index_file cfg h) = Some (File (text_of ls))"
    and "list_all line_ok ls"
  shows "(slash \<in> set query \<longrightarrow>
            fst (find_page cfg query w) = Inr (List.find (\<lambda>l. l = query @ ''.md'') ls)) \<and>
         (slash \<notin> set query \<and> list_all (\<lambda>l. slash \<in> set l) ls \<longrightarrow>
            fst (find_page cfg query w)
              = Inr (List.find (\<lambda>l. after_slash l = query @ ''.md'') ls))"
proof (intro conjI impI)
  assume q: "slash \<in> set query"
  then have "find_page cfg query w =
      (Inr (List.find (matches query) ls), w\<lparr>fopens := fopens w @ [(index_file cfg h, ''r'')]\<rparr>)"
    using find_page_lines [OF assms] by simp
  then show "fst (find_page cfg query w) = Inr (List.find (\<lambda>l. l = query @ ''.md'') ls)"
    by (simp add: find_whole [OF q])
next
  assume a: "slash \<notin> set query \<and> list_all (\<lambda>l. slash \<in> set l) ls"
  then have "find_page cfg query w =
      (Inr (List.find (matches query) ls), w\<lparr>fopens := fopens w @ [(index_file cfg h, ''r'')]\<rparr>)"
    using find_page_lines [OF assms] by simp
  with a show "fst (find_page cfg query w)
      = Inr (List.find (\<lambda>l. after_slash l = query @ ''.md'') ls)"
    by (simp add: find_name)
qed

theorem find_page_matching_rule_witness:
  "fst (find_page example_config ''foo'' (index_world (text_of [''linux/foo.md'', ''common/foo.md'']))) =
     Inr (Some ''linux/foo.md'') \<and>
   fst (find_page example_config ''common/foo'' (index_world (text_of [''linux/foo.md'', ''common/foo.md'']))) =
     Inr (Some ''common/foo.md'')"
proof -
  let ?ls = "[''linux/foo.md'', ''common/foo.md'']"
  let ?w = "index_world (text_of ?ls)"
  have h1: "home ?w = Some ''/home/u''"
    by (simp add: index_world_def example_world_def)
  have h2: "length (index_file example_config ''/home/u'') < BUF_SIZE"
    by (simp add: index_file_def example_config_def BUF_SIZE_def)
  have h3: "fs ?w (index_file example_config ''/home/u'') = Some (File (text_of ?ls))"
    by (simp add: index_world_def example_world_def index_file_def example_config_def)
  have h4: "list_all line_ok ?ls"
    by (simp add: line_ok_def BUF_SIZE_def)
  have h5: "list_all (\<lambda>l. slash \<in> set l) ?ls"
    by simp
  from find_page_matching_rule [OF h1 h2 h3 h4, of "''foo''"] h5
  have a: "fst (find_page example_config ''foo'' ?w) = Inr (Some ''linux/foo.md'')"
    by (simp add: after_slash_def)
  from find_page_matching_rule [OF h1 h2 h3 h4, of "''common/foo''"]
  have b: "fst (find_page example_config ''common/foo'' ?w) = Inr (Some ''common/foo.md'')"
    by simp
  from a b show ?thesis by simp
qed

lemma find_page_world:
  assumes "home w = Some h" "length (index_file cfg h) < BUF_SIZE"
    "fs w (index_file cfg h) = Some (File bytes)"
  shows "find_page cfg q w =
    (find_loop q (q @ ''.md'' @ [newline]) (fgets_all bytes),
     w\<lparr>fopens := fopens w @ [(index_file cfg h, ''r'')]\<rparr>)"
  by (simp add: find_page_def open_index_read [OF assms] read_lines_def)

text \<open>
  C7. For an index (lines newline-terminated and fitting the line buffer; every line with a
  slash when the query has none) that holds no match for the query, find_page returns NULL,
  and display_page prints the not-found message and exits with status 1; the only file
  opened is the index.
\<close>

theorem not_found_path:
  assumes "home w = Some h"
    and "length (index_file cfg h) < BUF_SIZE"
    and "fs w (index_file cfg h) = Some (File (text_of ls))"
    and "list_all line_ok ls"
    and "slash \<in> set query \<or> list_all (\<lambda>l. slash \<in> set l) ls"
    and "\<forall>l\<in>set ls. \<not> matches query l"
  shows "fst (find_page cfg query w) = Inr None \<and>
         display_page cfg query w =
           (Inl (Exit 1),
            w\<lparr>fopens := fopens w @ [(index_file cfg h, ''r'')],
              stdout := stdout w @ ''The page has not been found.'' @ [newline]\<rparr>)"
proof -
  from assms(6) have "List.find (matches query) ls = None"
    by (simp add: find_None_iff)
  then have fp: "find_page cfg query w =
      (Inr None, w\<lparr>fopens := fopens w @ [(index_file cfg h, ''r'')]\<rparr>)"
    using find_page_lines [OF assms(1-5)] by simp
  then show ?thesis
    by (simp add: display_page_def puts_def printf_def)
qed

theorem not_found_path_witness:
  "fst (find_page example_config ''nonexistent'' (index_world (text_of [''linux/foo.md'']))) = Inr None \<and>
   fst (display_page example_config ''nonexistent'' (index_world (text_of [''linux/foo.md''])))
     = Inl (Exit 1) \<and>
   stdout (snd (display_page example_config ''nonexistent'' (index_world (text_of [''linux/foo.md'']))))
     = ''The page has not been found.'' @ [newline] \<and>
   fopens (snd (display_page example_config ''nonexistent'' (index_world (text_of [''linux/foo.md'']))))
     = [(''/home/u/.tldr/index'', ''r'')]"
proof -
  let ?ls = "[''linux/foo.md'']"
  let ?w = "index_world (text_of ?ls)"
  have h1: "home ?w = Some ''/home/u''"
    by (simp add: index_world_def example_world_def)
  have h2: "length (index_file example_config ''/home/u'') < BUF_SIZE"
    by (simp add: index_file_def example_config_def BUF_SIZE_def)
  have h3: "fs ?w (index_file example_config ''/home/u'') = Some (File (text_of ?ls))"
    by (simp add: index_world_def example_world_def index_file_def example_config_def)
  have h4: "list_all line_ok ?ls"
    by (simp add: line_ok_def BUF_SIZE_def)
  have h5: "slash \<in> set ''nonexistent'' \<or> list_all (\<lambda>l. slash \<in> set l) ?ls"
    by simp
  have h6: "\<forall>l\<in>set ?ls. \<not> matches ''nonexistent'' l"
    by (simp add: matches_def after_slash_def)
  from not_found_path [OF h1 h2 h3 h4 h5 h6] show ?thesis
    by (simp add: index_world_def example_world_def index_file_def example_config_def)
qed

lemma chop_newline_no_fault: "newline \<in> set buf \<Longrightarrow> chop_newline buf \<noteq> Inl NullDeref"
  by (simp add: chop_newline_def strchr_Some)

lemma set_tl_member: "x \<in> set (tl xs) \<Longrightarrow> x \<in> set xs"
  by (cases xs) simp_all

lemma after_slash_subset: "set (after_slash buf) \<subseteq> set buf"
proof
  fix x
  assume "x \<in> set (after_slash buf)"
  then have "x \<in> set (dropWhile (\<lambda>c. c \<noteq> slash) buf)"
    unfolding after_slash_def by (rule set_tl_member)
  then show "x \<in> set buf"
    by (rule set_dropWhileD)
qed

lemma find_loop_null_slash:
  assumes "slash \<in> set q" "newline \<in> set pf"
  shows "find_loop q pf bufs \<noteq> Inl NullDeref"
proof (induction bufs)
  case Nil
  show ?case by simp
next
  case (Cons buf bufs)
  from assms(1) have "strchr q slash \<noteq> None"
    by (simp add: strchr_None_iff)
  with Cons assms(2) show ?case
    by (auto simp: chop_newline_no_fault)
qed

lemma find_loop_null_name:
  assumes "slash \<notin> set q" "newline \<in> set pf"
  shows "find_loop q pf bufs = Inl NullDeref \<longleftrightarrow>
    (\<exists>buf\<in>set (takeWhile (\<lambda>buf. \<not> (slash \<in> set buf \<and> after_slash buf = pf)) bufs).
       slash \<notin> set buf)"
proof (induction bufs)
  case Nil
  show ?case by simp
next
  case (Cons buf bufs)
  from assms(1) have q: "strchr q slash = None"
    by (simp add: strchr_None_iff)
  show ?case
  proof (cases "slash \<in> set buf")
    case False
    with q show ?thesis
      by (simp add: ptr_inc_strchr)
  next
    case True
    show ?thesis
    proof (cases "after_slash buf = pf")
      case eq: True
      with assms(2) after_slash_subset [of buf] have "newline \<in> set buf"
        by auto
      then have "chop_newline buf \<noteq> Inl NullDeref"
        by (rule chop_newline_no_fault)
      with q True eq show ?thesis
        by (simp add: ptr_inc_strchr after_slash_def)
    next
      case ne: False
      with q True Cons.IH show ?thesis
        by (auto simp: ptr_inc_strchr after_slash_def)
    qed
  qed
qed

text \<open>
  C10 (amended). find_page uses a null pointer exactly when the query has no slash and a
  buffer that fgets reads before the first match has no slash. So it never does for a query
  with a slash, whatever the index holds, and never for an index whose lines all contain a
  slash, end in a newline and fit the line buffer. The lookup of the newline cannot fail: it
  runs only on a buffer that compared equal to a string ending in a newline.
\<close>

theorem find_page_null_deref:
  assumes "home w = Some h"
    and "length (index_file cfg h) < BUF_SIZE"
    and "fs w (index_file cfg h) = Some (File bytes)"
  shows "(fst (find_page cfg query w) = Inl NullDeref \<longleftrightarrow>
            slash \<notin> set query \<and>
            (\<exists>buf\<in>set (takeWhile
                 (\<lambda>buf. \<not> (slash \<in> set buf \<and> after_slash buf = query @ ''.md'' @ [newline]))
                 (fgets_all bytes)).
               slash \<notin> set buf)) \<and>
         (bytes = text_of ls \<and> list_all line_ok ls \<and> list_all (\<lambda>l. slash \<in> set l) ls \<longrightarrow>
            fst (find_page cfg query w) \<noteq> Inl NullDeref)"
proof -
  have nl: "newline \<in> set (query @ ''.md'' @ [newline])"
    by simp
  have fp: "fst (find_page cfg query w) = find_loop query (query @ ''.md'' @ [newline]) (fgets_all bytes)"
    by (simp add: find_page_world [OF assms])
  have first: "fst (find_page cfg query w) = Inl NullDeref \<longleftrightarrow>
            slash \<notin> set query \<and>
            (\<exists>buf\<in>set (takeWhile
                 (\<lambda>buf. \<not> (slash \<in> set buf \<and> after_slash buf = query @ ''.md'' @ [newline]))
                 (fgets_all bytes)).
               slash \<notin> set buf)"
  proof (cases "slash \<in> set query")
    case True
    with find_loop_null_slash [OF True nl] fp show ?thesis
      by simp
  next
    case False
    with find_loop_null_name [OF False nl] fp show ?thesis
      by simp
  qed
  have second: "fst (find_page cfg query w) \<noteq> Inl NullDeref"
    if "bytes = text_of ls \<and> list_all line_ok ls \<and> list_all (\<lambda>l. slash \<in> set l) ls"
  proof -
    from that assms(3) have f: "fs w (index_file cfg h) = Some (File (text_of ls))"
      by simp
    from that have "slash \<in> set query \<or> list_all (\<lambda>l. slash \<in> set l) ls"
      by simp
    with that find_page_lines [OF assms(1,2) f] show ?thesis
      by simp
  qed
  from first second show ?thesis
    by blast
qed

theorem find_page_null_deref_witness:
  "fst (find_page example_config ''foo'' (index_world (text_of [''foo.md'', ''common/foo.md''])))
     = Inl NullDeref \<and>
   fst (find_page example_config ''foo'' (index_world (text_of [''linux/foo.md''])))
     \<noteq> Inl NullDeref"
proof -
  have h2: "length (index_file example_config ''/home/u'') < BUF_SIZE"
    by (simp add: index_file_def example_config_def BUF_SIZE_def)
  let ?bad = "text_of [''foo.md'', ''common/foo.md'']"
  have b1: "home (index_world ?bad) = Some ''/home/u''"
    by (simp add: index_world_def example_world_def)
  have b3: "fs (index_world ?bad) (index_file example_config ''/home/u'') = Some (File ?bad)"
    by (simp add: index_world_def example_world_def index_file_def example_config_def)
  have chunks: "fgets_all ?bad = [''foo.md'' @ [newline], ''common/foo.md'' @ [newline]]"
    by (simp add: fgets_all_text line_ok_def BUF_SIZE_def)
  have a: "fst (find_page example_config ''foo'' (index_world ?bad)) = Inl NullDeref"
    using find_page_null_deref [OF b1 h2 b3, of "''foo''" "[]"]
    by (simp add: chunks)
  let ?ls = "[''linux/foo.md'']"
  have g1: "home (index_world (text_of ?ls)) = Some ''/home/u''"
    by (simp add: index_world_def example_world_def)
  have g3: "fs (index_world (text_of ?ls)) (index_file example_config ''/home/u'') = Some (File (text_of ?ls))"
    by (simp add: index_world_def example_world_def index_file_def example_config_def)
  have g4: "list_all line_ok ?ls \<and> list_all (\<lambda>l. slash \<in> set l) ?ls"
    by (simp add: line_ok_def BUF_SIZE_def)
  have b: "fst (find_page example_config ''foo'' (index_world (text_of ?ls))) \<noteq> Inl NullDeref"
    using find_page_null_deref [OF g1 h2 g3, of "''foo''" ?ls] g4
    by blast
  from a b show ?thesis by simp
qed

lemma open_index_example:
  "open_index example_config ''r'' (index_world bytes) =
     (Inr (Stream ''/home/u/.tldr/index'' ''r'' bytes),
      (index_world bytes)\<lparr>fopens := [(''/home/u/.tldr/index'', ''r'')]\<rparr>)"
  by (simp add: open_index_def home_path_def example_config_def index_world_def example_world_def
      BUF_SIZE_def fopen_def)

lemma fgets_all_Cons:
  "fgets_all (c # s) =
     (case fgets_bytes (BUF_SIZE - 1) (c # s) of (l, r) \<Rightarrow> c_str l # fgets_all r)"
  by (subst fgets_all.simps) (simp add: fgets_def split: prod.splits)

lemmas fgets_all_eval = fgets_all_Nil fgets_all_Cons c_str_def BUF_SIZE_def

text \<open>
  An index whose only line lacks the terminating newline: for a query with and one without
  a slash, find_page compares, finds no match and returns NULL; no lookup returns a null
  pointer.
\<close>

theorem unterminated_line_no_null_deref:
  "fst (find_page example_config ''b'' (index_world ''a/b.md'')) = Inr None \<and>
   fst (find_page example_config ''a/b'' (index_world ''a/b.md'')) = Inr None"
  by (simp add: find_page_def open_index_example read_lines_def fgets_all_eval ptr_inc_def)

section \<open>The Page Renderer and the command line\<close>

lemma display_loop_prints:
  "display_loop cfg bufs w = w\<lparr>stdout := stdout w @ concat (map (display_line cfg) bufs)\<rparr>"
  by (induction bufs arbitrary: w) (simp_all add: printf_def)

lemma display_line_render:
  assumes "newline \<notin> set l"
  shows "display_line cfg (l @ [newline]) = render_line cfg l"
proof (cases l)
  case Nil
  then show ?thesis
    by (simp add: display_line_def render_line_def)
next
  case (Cons c cs)
  then show ?thesis
    by (simp add: display_line_def render_line_def first_char_def style_of_def)
qed

lemma display_text:
  "list_all line_ok ls \<Longrightarrow>
     map (display_line cfg \<circ> (\<lambda>l. l @ [newline])) ls = map (render_line cfg) ls"
  by (induction ls) (simp_all add: display_line_render line_ok_def)

text \<open>
  C4. When the page found for the query is a text whose lines are newline-terminated and fit
  the line buffer, display_page prints, line by line: nothing for a blank line, the line
  between its style and the reset for a first character #, >, - or backquote, and nothing
  for any other line.
\<close>

theorem render_filtering:
  assumes "find_page cfg page_name w = (Inr (Some rel), w1)"
    and "home w1 = Some h"
    and "length (page_file cfg h rel) < BUF_SIZE"
    and "fs w1 (page_file cfg h rel) = Some (File (text_of ls))"
    and "list_all line_ok ls"
  shows "display_page cfg page_name w =
           (Inr (),
            w1\<lparr>fopens := fopens w1 @ [(page_file cfg h rel, ''r'')],
               stdout := stdout w1 @ concat (map (render_line cfg) ls)\<rparr>)"
proof -
  have path: "home_path (home w1) [PAGES_PATH cfg, PAGES_LANG cfg, ''/'', rel] = Inr (page_file cfg h rel)"
    using assms(2,3) by (simp add: home_path_def page_file_def)
  have opened: "fopen (page_file cfg h rel) ''r'' w1 =
      (Some (Stream (page_file cfg h rel) ''r'' (text_of ls)),
       w1\<lparr>fopens := fopens w1 @ [(page_file cfg h rel, ''r'')]\<rparr>)"
    using assms(4) by (simp add: fopen_def)
  have bufs: "read_lines (Stream (page_file cfg h rel) ''r'' (text_of ls)) = map (\<lambda>l. l @ [newline]) ls"
    using assms(5) by (simp add: read_lines_def fgets_all_text)
  show ?thesis
    using assms(1,5)
    by (simp add: display_page_def path opened bufs display_loop_prints display_text)
qed

lemma find_page_example:
  "find_page example_config q (example_world\<lparr>fs := files\<rparr>) =
     (case files ''/home/u/.tldr/index'' of
        Some (File bytes) \<Rightarrow>
          (find_loop q (q @ ''.md'' @ [newline]) (fgets_all bytes),
           example_world\<lparr>fs := files, fopens := [(''/home/u/.tldr/index'', ''r'')]\<rparr>)
      | Some Dir \<Rightarrow>
          (Inr None, example_world\<lparr>fs := files, fopens := [(''/home/u/.tldr/index'', ''r'')]\<rparr>)
      | None \<Rightarrow>
          (Inl (Exit 1),
           example_world\<lparr>fs := files, fopens := [(''/home/u/.tldr/index'', ''r'')],
             stderr := ''Failer to open index, probably you should run '' @ [CHR 0x27]
               @ ''tldr -u'' @ [CHR 0x27] @ ''; details: r.'' @ [newline]\<rparr>))"
  by (simp add: find_page_def open_index_def home_path_def example_config_def example_world_def
      BUF_SIZE_def fopen_def read_lines_def error_terminate_def fgets_all_Nil
      split: option.splits node.splits)

theorem render_filtering_witness:
  "display_page example_config ''tar'' page_world =
     (Inr (),
      page_world\<lparr>fopens := [(''/home/u/.tldr/index'', ''r''),
                          (''/home/u/.tldr/pages/common/tar.md'', ''r'')],
        stdout := [CHR 0x1B] @ ''[1m# Title'' @ [newline, CHR 0x1B] @ ''[0m''
          @ [CHR 0x1B] @ ''[4m> desc'' @ [newline, CHR 0x1B] @ ''[0m''
          @ [CHR 0x1B] @ ''[33m'' @ [CHR 0x60] @ ''cmd'' @ [CHR 0x60, newline, CHR 0x1B] @ ''[0m''\<rparr>)"
proof -
  let ?w1 = "page_world\<lparr>fopens := [(''/home/u/.tldr/index'', ''r'')]\<rparr>"
  have h1: "find_page example_config ''tar'' page_world = (Inr (Some ''common/tar.md''), ?w1)"
    by (simp add: page_world_def find_page_example text_of_def fgets_all_eval ptr_inc_def
        chop_newline_def)
  have h2: "home ?w1 = Some ''/home/u''"
    by (simp add: page_world_def example_world_def)
  have h3: "length (page_file example_config ''/home/u'' ''common/tar.md'') < BUF_SIZE"
    by (simp add: page_file_def example_config_def BUF_SIZE_def)
  have h4: "fs ?w1 (page_file example_config ''/home/u'' ''common/tar.md'') = Some (File (text_of example_page))"
    by (simp add: page_world_def page_file_def example_config_def)
  have h5: "list_all line_ok example_page"
    by (simp add: example_page_def line_ok_def BUF_SIZE_def)
  from render_filtering [OF h1 h2 h3 h4 h5] show ?thesis
    by (simp add: page_file_def example_config_def example_page_def render_line_def style_of_def
        RESET_STYLING_def page_world_def example_world_def)
qed

text \<open>
  C5 (the code at the failing input). The index lists common/tar.md and no such file exists:
  fopen returns NULL, display_page passes it to fgets, and nothing reaches the error stream.
\<close>

theorem missing_page_file_null_stream:
  "fst (display_page example_config ''tar'' (index_world (text_of [''common/tar.md'']))) = Inl NullDeref \<and>
   stderr (snd (display_page example_config ''tar'' (index_world (text_of [''common/tar.md''])))) = [] \<and>
   fopens (snd (display_page example_config ''tar'' (index_world (text_of [''common/tar.md''])))) =
     [(''/home/u/.tldr/index'', ''r''), (''/home/u/.tldr/pages/common/tar.md'', ''r'')] \<and>
   fst (main example_config [''tldr'', ''tar''] (index_world (text_of [''common/tar.md'']))) = NullDeref"
proof -
  let ?w = "index_world (text_of [''common/tar.md''])"
  have found: "find_page example_config ''tar'' ?w =
      (Inr (Some ''common/tar.md''), ?w\<lparr>fopens := [(''/home/u/.tldr/index'', ''r'')]\<rparr>)"
    by (simp add: index_world_def find_page_example text_of_def fgets_all_eval ptr_inc_def
        chop_newline_def)
  have shown: "display_page example_config ''tar'' ?w =
      (Inl NullDeref,
       ?w\<lparr>fopens := [(''/home/u/.tldr/index'', ''r''),
                        (''/home/u/.tldr/pages/common/tar.md'', ''r'')]\<rparr>)"
    by (simp add: display_page_def found)
      (simp add: index_world_def example_world_def home_path_def example_config_def
        BUF_SIZE_def fopen_def)
  show ?thesis
    by (simp add: main_def finish_def shown) (simp add: index_world_def example_world_def)
qed

text \<open>
  C2 (the code at the failing input). With an index of one line, \<^verbatim>\<open>tldr -l\<close> opens the index
  with mode "w": the file is truncated, nothing can be read from the stream, nothing is
  printed, and the exit status is 0.
\<close>

theorem list_pages_truncates_index:
  "fst (main example_config [''tldr'', ''-l''] (index_world (text_of [''common/tar.md'']))) = Exit 0 \<and>
   stdout (snd (main example_config [''tldr'', ''-l''] (index_world (text_of [''common/tar.md''])))) = [] \<and>
   fs (snd (main example_config [''tldr'', ''-l''] (index_world (text_of [''common/tar.md'']))))
     ''/home/u/.tldr/index'' = Some (File [])"
  by (simp add: main_def finish_def list_pages_def open_index_def home_path_def example_config_def
      index_world_def example_world_def BUF_SIZE_def fopen_def read_lines_def)

section \<open>The Index Builder\<close>











text \<open>
  C9 (the code at the failing input). The user's home is /home/pages and the cache holds
  common/tar.md. index_pages truncates the stale index and writes one line for the one
  regular file, but ftw_callback looks for PAGES_LANG with strstr and finds it first inside
  the home directory: the line is the path after /home/pages/, not common/tar.md, and the
  page is then not found under either of its names.
\<close>

theorem home_holding_lang_segment:
  "fst (index_pages example_config pages_home_world) = Inr () \<and>
   fs (snd (index_pages example_config pages_home_world)) ''/home/pages/.tldr/index''
     = Some (File (text_of [''.tldr/pages/common/tar.md''])) \<and>
   fst (find_page example_config ''common/tar'' (snd (index_pages example_config pages_home_world)))
     = Inr None \<and>
   fst (find_page example_config ''tar'' (snd (index_pages example_config pages_home_world)))
     = Inr None"
proof -
  let ?idx = "''/home/pages/.tldr/index''"
  let ?w1 = "pages_home_world
      \<lparr>fopens := [(?idx, ''w'')],
       fs := (fs pages_home_world)(?idx \<mapsto> File (text_of [''.tldr/pages/common/tar.md'']))\<rparr>"
  have opened: "open_index example_config ''w'' pages_home_world =
      (Inr (Stream ?idx ''w'' []),
       pages_home_world\<lparr>fopens := [(?idx, ''w'')],
         fs := (fs pages_home_world)(?idx \<mapsto> File [])\<rparr>)"
    by (simp add: open_index_def home_path_def example_config_def pages_home_world_def
        example_world_def BUF_SIZE_def fopen_def)
  have found: "strstr ''/home/pages/.tldr/pages/common/tar.md'' ''/pages''
      = Some ''/pages/.tldr/pages/common/tar.md''"
    by simp
  have root: "home_path (home pages_home_world) [PAGES_PATH example_config, PAGES_LANG example_config]
      = Inr ''/home/pages/.tldr/pages''"
    by (simp add: home_path_def example_config_def pages_home_world_def example_world_def
        BUF_SIZE_def)
  have lang: "PAGES_LANG example_config = ''/pages''"
    by (simp add: example_config_def)
  have walked: "ftw
      [(''/home/pages/.tldr/pages'', FTW_D),
       (''/home/pages/.tldr/pages/common'', FTW_D),
       (''/home/pages/.tldr/pages/common/tar.md'', FTW_F)]
      (ftw_callback example_config (Stream ?idx ''w'' []))
      (pages_home_world\<lparr>fopens := [(?idx, ''w'')],
         fs := (fs pages_home_world)(?idx \<mapsto> File [])\<rparr>)
      = (Inr 0, ?w1)"
    by (simp add: ftw_callback_def lang found ptr_inc_def fprintf_line_def text_of_def)
  have walk: "ftw_walk pages_home_world ''/home/pages/.tldr/pages''
      = [(''/home/pages/.tldr/pages'', FTW_D),
         (''/home/pages/.tldr/pages/common'', FTW_D),
         (''/home/pages/.tldr/pages/common/tar.md'', FTW_F)]"
    by (simp add: pages_home_world_def)
  have indexed: "index_pages example_config pages_home_world = (Inr (), ?w1)"
    by (simp add: index_pages_def root opened walk walked del: ftw.simps)
  have reopened: "open_index example_config ''r'' ?w1 =
      (Inr (Stream ?idx ''r'' (text_of [''.tldr/pages/common/tar.md''])),
       ?w1\<lparr>fopens := [(?idx, ''w''), (?idx, ''r'')]\<rparr>)"
    by (simp add: open_index_def home_path_def example_config_def pages_home_world_def
        example_world_def BUF_SIZE_def fopen_def)
  have lookups: "fst (find_page example_config ''common/tar'' ?w1) = Inr None"
      "fst (find_page example_config ''tar'' ?w1) = Inr None"
    by (simp_all add: find_page_def reopened read_lines_def)
      (simp_all add: text_of_def fgets_all_eval ptr_inc_def)
  show ?thesis
    by (simp add: indexed lookups)
qed







section \<open>The Archive Extractor\<close>

lemma find_folder_found:
  "\<exists>e\<in>set entries. pathname e = root \<Longrightarrow>
     find_folder root entries = Some (drop 1 (dropWhile (\<lambda>e. pathname e \<noteq> root) entries))"
  by (induction entries) auto

lemma under_root_slash:
  assumes "under_root cfg e"
  shows "slash \<in> set (pathname e)"
proof -
  have "slash \<in> set (archive_root cfg)"
    by (simp add: archive_root_def)
  with assms have "slash \<in> set (take (length (archive_root cfg)) (pathname e))"
    by (simp add: under_root_def)
  then show ?thesis
    by (rule in_set_takeD)
qed

lemma extract_step:
  assumes "home w = Some h" "under_root cfg e"
    "length (destination cfg h e) < BUF_SIZE" "extract_error w (destination cfg h e) = None"
  shows "extract_loop cfg (archive_root cfg) (e # es) w
    = extract_loop cfg (archive_root cfg) es (w\<lparr>fs := put_entry cfg h e (fs w)\<rparr>)"
proof -
  from assms(2) have cmp: "strncmp_eq (pathname e) (archive_root cfg) (length (archive_root cfg))"
    by (simp add: strncmp_eq_def under_root_def)
  from assms(2) have tail: "strchr (pathname e) slash = Some (dropWhile (\<lambda>c. c \<noteq> slash) (pathname e))"
    by (intro strchr_Some under_root_slash)
  have path: "home_path (home w) [PAGES_PATH cfg, dropWhile (\<lambda>c. c \<noteq> slash) (pathname e)]
      = Inr (destination cfg h e)"
    using assms(1,3) by (simp add: home_path_def destination_def)
  have put: "archive_read_extract (e\<lparr>pathname := destination cfg h e\<rparr>) w
      = (None, w\<lparr>fs := put_entry cfg h e (fs w)\<rparr>)"
    using assms(4) by (simp add: archive_read_extract_def put_entry_def)
  show ?thesis
    by (simp add: cmp tail path put)
qed

lemma extract_stop:
  assumes "\<not> under_root cfg e"
  shows "extract_loop cfg (archive_root cfg) (e # es) w = (Inr (), w)"
proof -
  from assms have "\<not> strncmp_eq (pathname e) (archive_root cfg) (length (archive_root cfg))"
    by (simp add: strncmp_eq_def under_root_def)
  then show ?thesis
    by simp
qed

lemma extract_loop_run:
  "home w = Some h \<Longrightarrow>
   \<forall>e\<in>set (takeWhile (under_root cfg) es).
      length (destination cfg h e) < BUF_SIZE \<and> extract_error w (destination cfg h e) = None \<Longrightarrow>
   extract_loop cfg (archive_root cfg) es w
     = (Inr (), w\<lparr>fs := fold (put_entry cfg h) (takeWhile (under_root cfg) es) (fs w)\<rparr>)"
proof (induction es arbitrary: w)
  case Nil
  show ?case by simp
next
  case (Cons e es)
  show ?case
  proof (cases "under_root cfg e")
    case False
    then have "takeWhile (under_root cfg) (e # es) = []"
      by simp
    with extract_stop [OF False] show ?thesis
      by (simp del: extract_loop.simps)
  next
    case True
    let ?w1 = "w\<lparr>fs := put_entry cfg h e (fs w)\<rparr>"
    from True Cons.prems(2) have e: "length (destination cfg h e) < BUF_SIZE"
        "extract_error w (destination cfg h e) = None"
      by simp_all
    have h1: "home ?w1 = Some h"
      using Cons.prems(1) by simp
    have rest: "\<forall>e\<in>set (takeWhile (under_root cfg) es).
        length (destination cfg h e) < BUF_SIZE \<and> extract_error ?w1 (destination cfg h e) = None"
      using True Cons.prems(2) by simp
    have "extract_loop cfg (archive_root cfg) (e # es) w = extract_loop cfg (archive_root cfg) es ?w1"
      using Cons.prems(1) True e by (rule extract_step)
    also have "\<dots> = (Inr (), ?w1\<lparr>fs := fold (put_entry cfg h) (takeWhile (under_root cfg) es) (fs ?w1)\<rparr>)"
      using h1 rest by (rule Cons.IH)
    also have "?w1\<lparr>fs := fold (put_entry cfg h) (takeWhile (under_root cfg) es) (fs ?w1)\<rparr>
        = w\<lparr>fs := fold (put_entry cfg h) (takeWhile (under_root cfg) (e # es)) (fs w)\<rparr>"
      using True by simp
    finally show ?thesis .
  qed
qed

lemma extract_pages_opened:
  assumes "fs w (PAGES_TMP cfg) = Some (File bytes)" "read_zip w bytes = Inr entries"
    "length (archive_root cfg) < BUF_SIZE"
  shows "extract_pages cfg w =
    (case find_folder (archive_root cfg) entries of
       None \<Rightarrow> (Inl NullDeref, w\<lparr>fopens := fopens w @ [(PAGES_TMP cfg, ''r'')]\<rparr>)
     | Some es \<Rightarrow>
         extract_loop cfg (archive_root cfg) es (w\<lparr>fopens := fopens w @ [(PAGES_TMP cfg, ''r'')]\<rparr>))"
  using assms
  by (simp add: extract_pages_def fopen_def archive_root_def Let_def split: option.splits)

text \<open>
  C3 (amended). For an archive that holds an entry whose path is the root
  tldr-master PAGES_LANG /, extract_pages writes exactly the entries that follow the first
  such entry, up to the first entry that does not have the root as a prefix, where it stops
  without an error; the root entry itself is not written. Each entry goes to
  $HOME PAGES_PATH followed by its path from the first slash on: only the archive's
  top-level directory is dropped, the language directory stays.
\<close>

theorem extraction_scoping:
  assumes "fs w (PAGES_TMP cfg) = Some (File bytes)"
    and "read_zip w bytes = Inr entries"
    and "\<exists>e\<in>set entries. pathname e = archive_root cfg"
    and "length (archive_root cfg) < BUF_SIZE"
    and "home w = Some h"
    and "\<forall>e\<in>set (extracted_run cfg entries).
           length (destination cfg h e) < BUF_SIZE \<and> extract_error w (destination cfg h e) = None"
  shows "extract_pages cfg w =
           (Inr (),
            w\<lparr>fopens := fopens w @ [(PAGES_TMP cfg, ''r'')],
              fs := fold (put_entry cfg h) (extracted_run cfg entries) (fs w)\<rparr>)"
proof -
  let ?w1 = "w\<lparr>fopens := fopens w @ [(PAGES_TMP cfg, ''r'')]\<rparr>"
  let ?rest = "drop 1 (dropWhile (\<lambda>e. pathname e \<noteq> archive_root cfg) entries)"
  have folder: "find_folder (archive_root cfg) entries = Some ?rest"
    using assms(3) by (rule find_folder_found)
  have h1: "home ?w1 = Some h"
    using assms(5) by simp
  have ok: "\<forall>e\<in>set (takeWhile (under_root cfg) ?rest).
      length (destination cfg h e) < BUF_SIZE \<and> extract_error ?w1 (destination cfg h e) = None"
    using assms(6) by (simp add: extracted_run_def)
  have "extract_pages cfg w = extract_loop cfg (archive_root cfg) ?rest ?w1"
    by (simp add: extract_pages_opened [OF assms(1,2,4)] folder)
  also have "\<dots> = (Inr (), ?w1\<lparr>fs := fold (put_entry cfg h)
      (takeWhile (under_root cfg) ?rest) (fs ?w1)\<rparr>)"
    using h1 ok by (rule extract_loop_run)
  finally show ?thesis
    by (simp add: extracted_run_def)
qed

lemma example_archive_root: "archive_root example_config = ''tldr-master/pages/''"
  by (simp add: archive_root_def example_config_def)

lemma example_run:
  "extracted_run example_config example_archive =
     [\<lparr>pathname = ''tldr-master/pages/common/'', body = Dir\<rparr>,
      \<lparr>pathname = ''tldr-master/pages/common/tar.md'', body = File ''# tar''\<rparr>]"
  by (simp add: extracted_run_def example_archive_def example_archive_root under_root_def)

theorem extraction_scoping_witness:
  "extract_pages example_config (archive_world example_archive) =
     (Inr (),
      (archive_world example_archive)
        \<lparr>fopens := [(''/tmp/tldr_pages.zip'', ''r'')],
         fs := (fs (archive_world example_archive))
                 (''/home/u/.tldr/pages/common/'' \<mapsto> Dir,
                  ''/home/u/.tldr/pages/common/tar.md'' \<mapsto> File ''# tar'')\<rparr>)"
proof -
  let ?w = "archive_world example_archive"
  have h1: "fs ?w (PAGES_TMP example_config) = Some (File ''PK'')"
    by (simp add: archive_world_def example_config_def)
  have h2: "read_zip ?w ''PK'' = Inr example_archive"
    by (simp add: archive_world_def)
  have root: "\<exists>e\<in>set example_archive. pathname e = archive_root example_config"
    by (simp add: example_archive_def example_archive_root)
  have h3: "length (archive_root example_config) < BUF_SIZE"
    by (simp add: example_archive_root BUF_SIZE_def)
  have h4: "home ?w = Some ''/home/u''"
    by (simp add: archive_world_def example_world_def)
  have h5: "\<forall>e\<in>set (extracted_run example_config example_archive).
           length (destination example_config ''/home/u'' e) < BUF_SIZE \<and>
           extract_error ?w (destination example_config ''/home/u'' e) = None"
    by (simp add: example_run)
      (simp add: destination_def example_config_def BUF_SIZE_def archive_world_def
        example_world_def)
  from extraction_scoping [OF h1 h2 root h3 h4 h5] show ?thesis
    by (simp add: example_run put_entry_def destination_def)
      (simp add: example_config_def archive_world_def example_world_def)
qed

text \<open>
  The entry tldr-master/pages/common/tar.md is written below the destination root with the
  language directory kept: one path component is dropped, and nothing is written where
  dropping two would put it.
\<close>

theorem two_components_not_discarded:
  "fs (snd (extract_pages example_config (archive_world example_archive)))
     ''/home/u/.tldr/pages/common/tar.md'' = Some (File ''# tar'') \<and>
   fs (snd (extract_pages example_config (archive_world example_archive)))
     ''/home/u/.tldr/common/tar.md'' = None"
proof -
  let ?w = "archive_world example_archive"
  have folder: "find_folder ''tldr-master/pages/'' example_archive =
      Some [\<lparr>pathname = ''tldr-master/pages/common/'', body = Dir\<rparr>,
            \<lparr>pathname = ''tldr-master/pages/common/tar.md'', body = File ''# tar''\<rparr>,
            \<lparr>pathname = ''tldr-master/pages.de/'', body = Dir\<rparr>,
            \<lparr>pathname = ''tldr-master/pages.de/common/tar.md'', body = File ''# tar (de)''\<rparr>]"
    by (simp add: example_archive_def)
  have opened: "extract_pages example_config ?w =
      extract_loop example_config ''tldr-master/pages/''
        [\<lparr>pathname = ''tldr-master/pages/common/'', body = Dir\<rparr>,
         \<lparr>pathname = ''tldr-master/pages/common/tar.md'', body = File ''# tar''\<rparr>,
         \<lparr>pathname = ''tldr-master/pages.de/'', body = Dir\<rparr>,
         \<lparr>pathname = ''tldr-master/pages.de/common/tar.md'', body = File ''# tar (de)''\<rparr>]
        (?w\<lparr>fopens := [(''/tmp/tldr_pages.zip'', ''r'')]\<rparr>)"
    using folder
    by (simp add: extract_pages_def fopen_def example_config_def archive_world_def
        example_world_def BUF_SIZE_def Let_def)
  show ?thesis
    by (simp add: opened)
      (simp add: strncmp_eq_def home_path_def example_config_def archive_world_def
        example_world_def BUF_SIZE_def archive_read_extract_def)
qed

text \<open>
  C8 (the code at the failing input). The archive holds the German pages only, so no entry
  has the root tldr-master/pages/ as its path. The first loop reads every header and ends on
  ARCHIVE_EOF; the second loop asks the reader again, is not answered ARCHIVE_EOF, and its
  body passes the NULL path name of the cleared entry to strncmp. Nothing was written to the
  file system or to the error stream before that.
\<close>

theorem missing_subtree_null_path:
  "fst (extract_pages example_config (archive_world german_archive)) = Inl NullDeref \<and>
   stderr (snd (extract_pages example_config (archive_world german_archive))) = [] \<and>
   fs (snd (extract_pages example_config (archive_world german_archive)))
     = fs (archive_world german_archive)"
proof -
  have missing: "find_folder ''tldr-master/pages/'' german_archive = None"
    by (simp add: german_archive_def)
  have "extract_pages example_config (archive_world german_archive) =
      (Inl NullDeref,
       (archive_world german_archive)\<lparr>fopens := [(''/tmp/tldr_pages.zip'', ''r'')]\<rparr>)"
    using missing
    by (simp add: extract_pages_def fopen_def example_config_def archive_world_def
        example_world_def BUF_SIZE_def Let_def)
  then show ?thesis
    by (simp add: archive_world_def example_world_def)
qed

end
